theory Spec2Isabelle
  imports Main
begin

section \<open>Strings of the JavaScript runtime\<close>

text \<open>
  A JavaScript string is modelled by its UTF-8 bytes (\<open>string\<close> is \<open>char list\<close>, a
  \<open>char\<close> is a byte). The source's literals are ASCII apart from a few emoji, which are
  written out as their UTF-8 bytes. A \<open>Buffer\<close> is a byte list too, and
  \<open>Buffer.toString()\<close> is the identity: an ASCII needle occurs in the decoded text
  exactly when its bytes occur in the buffer, since UTF-8 decoding never swallows an
  ASCII byte.
\<close>

definition nl :: string where
  "nl = [CHR 0x0A]"

definition emoji_magnifier :: string where
  "emoji_magnifier = [CHR 0xF0, CHR 0x9F, CHR 0x94, CHR 0x8D]"

definition emoji_warning :: string where
  "emoji_warning = [CHR 0xE2, CHR 0x9A, CHR 0xA0, CHR 0xEF, CHR 0xB8, CHR 0x8F]"

definition emoji_memo :: string where
  "emoji_memo = [CHR 0xF0, CHR 0x9F, CHR 0x93, CHR 0x9D]"

definition emoji_chart :: string where
  "emoji_chart = [CHR 0xF0, CHR 0x9F, CHR 0x93, CHR 0x8A]"

definition emoji_cross :: string where
  "emoji_cross = [CHR 0xE2, CHR 0x9D, CHR 0x8C]"

definition emoji_wrench :: string where
  "emoji_wrench = [CHR 0xF0, CHR 0x9F, CHR 0x94, CHR 0xA7]"

definition emoji_shield :: string where
  "emoji_shield = [CHR 0xF0, CHR 0x9F, CHR 0x9B, CHR 0xA1, CHR 0xEF, CHR 0xB8, CHR 0x8F]"

definition emoji_check :: string where
  "emoji_check = [CHR 0xE2, CHR 0x9C, CHR 0x85]"

text \<open>\<open>hay.startsWith(needle)\<close> and \<open>hay.includes(needle)\<close>.\<close>

definition startsWith :: "string \<Rightarrow> string \<Rightarrow> bool" where
  "startsWith hay needle = (take (length needle) hay = needle)"

fun includes_str :: "string \<Rightarrow> string \<Rightarrow> bool" where
  "includes_str [] needle = (needle = [])"
| "includes_str (c # cs) needle = (startsWith (c # cs) needle \<or> includes_str cs needle)"

text \<open>\<open>xs.join(sep)\<close> on an array of strings.\<close>

fun join_str :: "string list \<Rightarrow> string \<Rightarrow> string" where
  "join_str [] sep = []"
| "join_str [x] sep = x"
| "join_str (x # y # ys) sep = x @ sep @ join_str (y # ys) sep"

text \<open>A non-negative integer in a template literal: its decimal digits.\<close>

definition digit_char :: "nat \<Rightarrow> char" where
  "digit_char d = ''0123456789'' ! (d mod 10)"

fun show_nat :: "nat \<Rightarrow> string" where
  "show_nat n = (if n < 10 then [digit_char n] else show_nat (n div 10) @ [digit_char n])"

declare show_nat.simps [simp del]

text \<open>A nullable string in a template literal: \<open>null\<close> prints as the word.\<close>

fun template_opt :: "string option \<Rightarrow> string" where
  "template_opt None = ''null''"
| "template_opt (Some s) = s"

section \<open>The Node.js process and file system\<close>

text \<open>
  A path holds a readable file with its bytes, or something that exists but whose read
  throws (a directory, a file without read permission) with the runtime's message.
\<close>

datatype fnode = Readable string | Unreadable string

text \<open>
  What the runtime provides: \<open>process.platform\<close>, \<open>process.arch\<close>, \<open>process.env\<close>,
  \<open>__dirname\<close> of the library, the functions of the \<open>path\<close> module, the files on
  disk with their modification times, SHA-256 with hex output, and \<open>JSON.parse\<close>
  (\<open>Inl\<close> carries the message of the thrown \<open>SyntaxError\<close>). The document type
  \<open>'m\<close> is whatever \<open>JSON.parse\<close> returns; \<open>truthy\<close> is its JavaScript truth value.
\<close>

record 'm node =
  platform :: string
  arch :: string
  env :: "string \<Rightarrow> string option"
  dirname_lib :: string
  path_join :: "string list \<Rightarrow> string"
  path_dirname :: "string \<Rightarrow> string"
  path_basename :: "string \<Rightarrow> string"
  files :: "string \<Rightarrow> fnode option"
  mtime :: "string \<Rightarrow> nat"
  sha256_hex :: "string \<Rightarrow> string"
  JSON_parse :: "string \<Rightarrow> string + 'm"
  truthy :: "'m \<Rightarrow> bool"

text \<open>The observable actions of the verifier, in the order they happen.\<close>

datatype event =
    ExistsSync string
  | ReadFileSync string
  | StatSync string
  | Sha256Digest string
  | ConsoleLog string

definition existsSync :: "'m node \<Rightarrow> string \<Rightarrow> bool" where
  "existsSync N p = (files N p \<noteq> None)"

definition readFileSync :: "'m node \<Rightarrow> string \<Rightarrow> string + string" where
  "readFileSync N p =
     (case files N p of
        None \<Rightarrow> Inl (''ENOENT: no such file or directory, open '' @ [CHR 0x27] @ p @ [CHR 0x27])
      | Some (Unreadable msg) \<Rightarrow> Inl msg
      | Some (Readable bytes) \<Rightarrow> Inr bytes)"

section \<open>lib/binary-integrity-verifier.js\<close>

subsection \<open>detectPlatform\<close>

text \<open>
  \<open>platformMap\<close> and \<open>archMap\<close> are object literals, so \<open>obj[key]\<close> finds the
  literal's own properties first and the members of \<open>Object.prototype\<close> after them.
  Those members are functions (an object for \<open>__proto__\<close>), all truthy; the second
  component is what a template literal prints for them under V8.
\<close>

definition platformMap :: "(string \<times> string) list" where
  "platformMap = [(''win32'', ''win32''), (''darwin'', ''darwin''), (''linux'', ''linux'')]"

definition archMap :: "(string \<times> string) list" where
  "archMap = [(''x64'', ''x64''), (''x86_64'', ''x64''), (''arm64'', ''arm64''), (''aarch64'', ''arm64'')]"

definition native_function :: "string \<Rightarrow> string" where
  "native_function name = ''function '' @ name @ ''() { [native code] }''"

definition Object_prototype :: "(string \<times> string) list" where
  "Object_prototype =
     [(''constructor'', native_function ''Object''),
      (''__defineGetter__'', native_function ''__defineGetter__''),
      (''__defineSetter__'', native_function ''__defineSetter__''),
      (''hasOwnProperty'', native_function ''hasOwnProperty''),
      (''__lookupGetter__'', native_function ''__lookupGetter__''),
      (''__lookupSetter__'', native_function ''__lookupSetter__''),
      (''isPrototypeOf'', native_function ''isPrototypeOf''),
      (''propertyIsEnumerable'', native_function ''propertyIsEnumerable''),
      (''toString'', native_function ''toString''),
      (''valueOf'', native_function ''valueOf''),
      (''__proto__'', ''[object Object]''),
      (''toLocaleString'', native_function ''toLocaleString'')]"

text \<open>\<open>`${literal[key] || dflt}`\<close>: every value that can be found is truthy.\<close>

definition lookup_or :: "(string \<times> string) list \<Rightarrow> string \<Rightarrow> string \<Rightarrow> string" where
  "lookup_or literal key dflt =
     (case map_of literal key of
        Some v \<Rightarrow> v
      | None \<Rightarrow> (case map_of Object_prototype key of Some shown \<Rightarrow> shown | None \<Rightarrow> dflt))"

definition detectPlatform :: "'m node \<Rightarrow> string" where
  "detectPlatform N =
     (let normalizedPlatform = lookup_or platformMap (platform N) (platform N);
          normalizedArch = lookup_or archMap (arch N) ''x64''
      in normalizedPlatform @ ''-'' @ normalizedArch)"

subsection \<open>The manifest and the verifier object\<close>

text \<open>
  An entry of \<open>manifest.binaries\<close>, with the fields the verifier reads. A property
  that is absent, \<open>null\<close> or \<open>false\<close> is falsy alike, so the two flags are
  booleans; \<open>sha256\<close> and \<open>size\<close> are nullable.
\<close>

record artifact_entry =
  filename :: string
  sha256 :: "string option"
  size_e :: "nat option"
  missing :: bool
  dev_placeholder :: bool

text \<open>
  The manifest as the verifier uses it: \<open>binaries\<close> lists the own properties of the
  object in the order of \<open>Object.keys\<close>.
\<close>

record manifest_doc =
  version :: string
  binaries :: "(string \<times> artifact_entry) list"

text \<open>The result object; a property that a branch does not set is \<open>None\<close>.\<close>

record verification_result =
  verified :: bool
  hash :: "string option"
  size_r :: "nat option"
  lastModified :: "nat option"
  isPlaceholder :: bool
  devMode_r :: "bool option"
  platform_r :: "string option"

record 'm verifier =
  manifestPath :: string
  manifest :: "'m option"
  devMode :: bool

text \<open>The constructor: \<open>manifestPath || path.join(__dirname, '..', 'manifest.json')\<close>.\<close>

definition new_BinaryIntegrityVerifier :: "'m node \<Rightarrow> string option \<Rightarrow> 'm verifier" where
  "new_BinaryIntegrityVerifier N manifestPath_arg =
     \<lparr> manifestPath =
         (case manifestPath_arg of
            Some p \<Rightarrow> if p \<noteq> [] then p else path_join N [dirname_lib N, ''..'', ''manifest.json'']
          | None \<Rightarrow> path_join N [dirname_lib N, ''..'', ''manifest.json'']),
       manifest = None,
       devMode = (env N ''NODE_ENV'' = Some ''development'' \<or> env N ''MCP_DEV_MODE'' = Some ''true'') \<rparr>"

subsection \<open>loadManifest\<close>

definition manifest_load_message :: "string \<Rightarrow> string \<Rightarrow> string" where
  "manifest_load_message path msg = ''Failed to load manifest from '' @ path @ '': '' @ msg"

text \<open>The body of the \<open>try\<close> block: read the file, parse it, store the result.\<close>

definition readManifest :: "'m node \<Rightarrow> 'm verifier \<Rightarrow> (string + 'm) \<times> 'm verifier \<times> event list" where
  "readManifest N V =
     (case readFileSync N (manifestPath V) of
        Inl msg \<Rightarrow>
          (Inl (manifest_load_message (manifestPath V) msg), V, [ReadFileSync (manifestPath V)])
      | Inr manifestData \<Rightarrow>
          (case JSON_parse N manifestData of
             Inl msg \<Rightarrow>
               (Inl (manifest_load_message (manifestPath V) msg), V, [ReadFileSync (manifestPath V)])
           | Inr m \<Rightarrow> (Inr m, V\<lparr>manifest := Some m\<rparr>, [ReadFileSync (manifestPath V)])))"

definition loadManifest :: "'m node \<Rightarrow> 'm verifier \<Rightarrow> (string + 'm) \<times> 'm verifier \<times> event list" where
  "loadManifest N V =
     (case manifest V of
        Some m \<Rightarrow> if truthy N m then (Inr m, V, []) else readManifest N V
      | None \<Rightarrow> readManifest N V)"

text \<open>
  JSON documents, for what \<open>JSON.parse\<close> can return (numbers restricted to
  integers), and their truth value.
\<close>

datatype json =
    JNull
  | JBool bool
  | JNum int
  | JStr string
  | JArr "json list"
  | JObj "(string \<times> json) list"

fun js_truthy :: "json \<Rightarrow> bool" where
  "js_truthy JNull = False"
| "js_truthy (JBool b) = b"
| "js_truthy (JNum n) = (n \<noteq> 0)"
| "js_truthy (JStr s) = (s \<noteq> [])"
| "js_truthy (JArr xs) = True"
| "js_truthy (JObj kvs) = True"

text \<open>\<open>doc.key\<close> for a parsed document: \<open>None\<close> is \<open>undefined\<close>.\<close>

fun json_member :: "json \<Rightarrow> string \<Rightarrow> json option" where
  "json_member (JObj kvs) key = map_of kvs key"
| "json_member other key = None"

subsection \<open>verifyBinary\<close>

definition hash_mismatch_message :: "string \<Rightarrow> string option \<Rightarrow> string \<Rightarrow> nat \<Rightarrow> string" where
  "hash_mismatch_message base expectedHash actualHash fileSize =
     ''Binary integrity check FAILED!'' @ nl @
     ''                '' @ nl @
     emoji_cross @ '' Hash mismatch detected:'' @ nl @
     ''   File: '' @ base @ nl @
     ''   Expected: '' @ template_opt expectedHash @ nl @
     ''   Actual:   '' @ actualHash @ nl @
     ''   Size: '' @ show_nat fileSize @ '' bytes'' @ nl @
     ''   '' @ nl @
     emoji_warning @ ''  This could indicate:'' @ nl @
     ''   - Binary has been modified/corrupted'' @ nl @
     ''   - Man-in-the-middle attack'' @ nl @
     ''   - Storage corruption'' @ nl @
     ''   - Wrong binary version'' @ nl @
     ''   '' @ nl @
     emoji_wrench @ '' Solutions:'' @ nl @
     ''   1. Re-download: npm uninstall && npm install mcp-prompt-optimizer-local'' @ nl @
     ''   2. Clear cache: npm cache clean --force'' @ nl @
     ''   3. Check antivirus software isn'' @ [CHR 0x27] @ ''t modifying files'' @ nl @
     ''   4. Contact support@promptoptimizer.help if problem persists'' @ nl @
     ''   '' @ nl @
     emoji_shield @ ''  For security, installation cannot continue with unverified binary.''"

definition not_found_message :: "string \<Rightarrow> string" where
  "not_found_message binaryPath = ''Binary not found: '' @ binaryPath"

definition placeholder_in_production_message :: "string \<Rightarrow> string" where
  "placeholder_in_production_message binaryPath =
     ''Placeholder binary detected in production mode: '' @ binaryPath"

text \<open>The \<open>catch\<close> of \<open>verifyBinary\<close> wraps every error thrown in its \<open>try\<close> block.\<close>

definition verification_failed :: "string \<Rightarrow> string" where
  "verification_failed msg = ''Binary verification failed: '' @ msg"

definition size_warning :: "nat \<Rightarrow> nat \<Rightarrow> string" where
  "size_warning expected got =
     emoji_warning @ ''  Warning: Binary size mismatch (expected '' @ show_nat expected @
     '', got '' @ show_nat got @ '')''"

text \<open>
  \<open>binaryInfo.size && stats.size !== binaryInfo.size\<close>: a recorded size of \<open>null\<close>
  or \<open>0\<close> is falsy and switches the comparison off. A mismatch is logged, nothing else.
\<close>

definition sizeCheck :: "nat option \<Rightarrow> nat \<Rightarrow> event list" where
  "sizeCheck recorded actual =
     (case recorded of
        None \<Rightarrow> []
      | Some n \<Rightarrow> if n \<noteq> 0 \<and> actual \<noteq> n then [ConsoleLog (size_warning n actual)] else [])"

text \<open>The part of \<open>verifyBinary\<close> after the placeholder check: hash and compare.\<close>

definition hashAndCompare ::
    "'m node \<Rightarrow> string \<Rightarrow> string option \<Rightarrow> artifact_entry \<Rightarrow> string \<Rightarrow>
     (string + verification_result) \<times> event list" where
  "hashAndCompare N binaryPath expectedHash binaryInfo fileBuffer =
     (let fileSize = length fileBuffer;
          actualHash = sha256_hex N fileBuffer;
          t = [Sha256Digest fileBuffer,
               ConsoleLog (emoji_chart @ '' Expected hash: '' @ template_opt expectedHash),
               ConsoleLog (emoji_chart @ '' Actual hash:   '' @ actualHash)]
      in if Some actualHash \<noteq> expectedHash
         then (Inl (verification_failed
                      (hash_mismatch_message (path_basename N binaryPath) expectedHash actualHash fileSize)),
               t)
         else (Inr \<lparr> verified = True, hash = Some actualHash, size_r = Some fileSize,
                     lastModified = Some (mtime N binaryPath), isPlaceholder = False,
                     devMode_r = None, platform_r = None \<rparr>,
               t @ [ConsoleLog (emoji_check @ '' Binary integrity verification passed''),
                    StatSync binaryPath] @
               sizeCheck (size_e binaryInfo) fileSize))"

definition verifyBinary ::
    "'m node \<Rightarrow> 'm verifier \<Rightarrow> string \<Rightarrow> string option \<Rightarrow> artifact_entry \<Rightarrow>
     (string + verification_result) \<times> event list" where
  "verifyBinary N V binaryPath expectedHash binaryInfo =
     (let t0 = [ConsoleLog (emoji_magnifier @ '' Verifying binary integrity: '' @ path_basename N binaryPath),
                ExistsSync binaryPath]
      in if \<not> existsSync N binaryPath
         then (Inl (verification_failed (not_found_message binaryPath)), t0)
         else
           (case readFileSync N binaryPath of
              Inl msg \<Rightarrow> (Inl (verification_failed msg), t0 @ [ReadFileSync binaryPath])
            | Inr fileBuffer \<Rightarrow>
                (let fileSize = length fileBuffer;
                     isPlaceholder = (fileSize < 10000 \<and> includes_str fileBuffer ''placeholder'');
                     t1 = t0 @ [ReadFileSync binaryPath]
                 in if isPlaceholder
                    then
                      (if devMode V \<or> dev_placeholder binaryInfo
                       then (Inr \<lparr> verified = True, hash = Some ''placeholder'', size_r = Some fileSize,
                                   lastModified = None, isPlaceholder = True,
                                   devMode_r = Some True, platform_r = None \<rparr>,
                             t1 @ [ConsoleLog (emoji_warning @ ''  Development placeholder detected: '' @
                                                path_basename N binaryPath),
                                   ConsoleLog (emoji_memo @
                                                '' This will be replaced with real binary in CI/production'')])
                       else (Inl (verification_failed (placeholder_in_production_message binaryPath)), t1))
                    else
                      (case hashAndCompare N binaryPath expectedHash binaryInfo fileBuffer of
                         (r, t2) \<Rightarrow> (r, t1 @ t2)))))"

subsection \<open>verifyCurrentPlatform\<close>

definition no_binary_message :: "string \<Rightarrow> string list \<Rightarrow> string \<Rightarrow> string \<Rightarrow> string" where
  "no_binary_message platformKey availablePlatforms os cpu =
     ''No binary available for platform: '' @ platformKey @ nl @
     ''            '' @ nl @
     ''Available platforms: '' @ join_str availablePlatforms '', '' @ nl @ nl @
     ''This usually means:'' @ nl @
     ''1. Your platform isn'' @ [CHR 0x27] @ ''t supported yet'' @ nl @
     ''2. The package hasn'' @ [CHR 0x27] @ ''t been built for your architecture'' @ nl @
     ''3. You'' @ [CHR 0x27] @ ''re running on an unsupported system'' @ nl @ nl @
     ''Detected platform: '' @ os @ nl @
     ''Detected architecture: '' @ cpu @ nl @ nl @
     ''Contact support@promptoptimizer.help for assistance.''"

definition missing_in_production_message :: "string \<Rightarrow> string" where
  "missing_in_production_message platformKey =
     ''Binary not available for '' @ platformKey @ '' - missing in production build''"

definition verifyCurrentPlatform ::
    "manifest_doc node \<Rightarrow> manifest_doc verifier \<Rightarrow>
     (string + verification_result) \<times> manifest_doc verifier \<times> event list" where
  "verifyCurrentPlatform N V =
     (case loadManifest N V of
        (Inl msg, V', t) \<Rightarrow> (Inl msg, V', t)
      | (Inr m, V', t) \<Rightarrow>
          (let platformKey = detectPlatform N in
           case map_of (binaries m) platformKey of
             None \<Rightarrow>
               (let availablePlatforms = map fst (binaries m)
                in (Inl (no_binary_message platformKey availablePlatforms (platform N) (arch N)), V', t))
           | Some binaryInfo \<Rightarrow>
               (let binDir = path_join N [path_dirname N (manifestPath V'), ''bin''];
                    binaryPath = path_join N [binDir, filename binaryInfo]
                in if missing binaryInfo
                   then
                     (if devMode V' \<or> dev_placeholder binaryInfo
                      then (Inr \<lparr> verified = True, hash = None, size_r = None, lastModified = None,
                                  isPlaceholder = True, devMode_r = Some True,
                                  platform_r = Some platformKey \<rparr>,
                            V',
                            t @ [ConsoleLog (emoji_warning @ ''  Development mode: '' @ platformKey @
                                              '' binary is placeholder'')])
                      else (Inl (missing_in_production_message platformKey), V', t))
                   else
                     (case verifyBinary N V' binaryPath (sha256 binaryInfo) binaryInfo of
                        (Inl msg, t2) \<Rightarrow> (Inl msg, V', t @ t2)
                      | (Inr result, t2) \<Rightarrow>
                          (Inr (result\<lparr>platform_r := Some platformKey\<rparr>), V', t @ t2)))))"

section \<open>secure-postinstall.js\<close>

subsection \<open>detectCIEnvironment and the constructor\<close>

text \<open>\<open>!!process.env.NAME\<close>: the variable is set and not empty.\<close>

definition env_truthy :: "'m node \<Rightarrow> string \<Rightarrow> bool" where
  "env_truthy N name = (case env N name of None \<Rightarrow> False | Some v \<Rightarrow> v \<noteq> [])"

definition isStrictCI :: "'m node \<Rightarrow> bool" where
  "isStrictCI N =
     ((env N ''CI'' = Some ''true'' \<or> env N ''CI'' = Some ''1'') \<and>
      (env N ''GITHUB_ACTIONS'' = Some ''true'' \<or>
       env N ''TRAVIS'' = Some ''true'' \<or>
       env N ''CIRCLECI'' = Some ''true'' \<or>
       env_truthy N ''JENKINS_URL''))"

definition devOverride :: "'m node \<Rightarrow> bool" where
  "devOverride N = (env N ''OPTIMIZER_SKIP_SECURITY'' = Some ''true'')"

definition detectCIEnvironment :: "'m node \<Rightarrow> bool" where
  "detectCIEnvironment N = (isStrictCI N \<or> devOverride N)"

text \<open>
  The installer object; of its fields the gate sequencer reads \<open>isCI\<close> only, which the
  constructor computes once.
\<close>

record installer =
  isCI :: bool

definition new_SecurePostInstaller :: "'m node \<Rightarrow> installer" where
  "new_SecurePostInstaller N = \<lparr> isCI = detectCIEnvironment N \<rparr>"

subsection \<open>downloadFile\<close>

text \<open>
  What the network does with a request: the request emits \<open>error\<close>, or a response
  arrives with its status code, status message and \<open>location\<close> header. For a 200 the
  body is piped to the file, and either the file stream finishes with the bytes or it
  emits \<open>error\<close>.
\<close>

datatype body = Finish string | FileError string

datatype http_reply =
    RequestError string
  | Response nat string "string option" body

type_synonym fs = "string \<Rightarrow> fnode option"

text \<open>
  \<open>fs.createWriteStream(destinationPath)\<close> opens the file for writing at once, which
  creates it or truncates it. A redirect calls \<open>downloadFile\<close> again, with no bound on
  the number of hops, so the function is partial: \<open>None\<close> is a redirect chain that
  never ends. \<open>Inl msg\<close> is the promise rejected with that message.
\<close>

partial_function (option) downloadFile ::
    "(string \<Rightarrow> http_reply) \<Rightarrow> string \<Rightarrow> string \<Rightarrow> fs \<Rightarrow> ((string + unit) \<times> fs) option" where
  "downloadFile net url destinationPath disk =
     (let disk1 = disk(destinationPath \<mapsto> Readable []) in
      case net url of
        RequestError msg \<Rightarrow> Some (Inl msg, disk1)
      | Response statusCode statusMessage location body \<Rightarrow>
          if statusCode = 302 \<or> statusCode = 301
          then
            (case location of
               None \<Rightarrow> Some (Inl ''Redirect without location header'', disk1)
             | Some loc \<Rightarrow>
                 if loc = [] then Some (Inl ''Redirect without location header'', disk1)
                 else downloadFile net loc destinationPath disk1)
          else if statusCode \<noteq> 200
          then Some (Inl (''HTTP '' @ show_nat statusCode @ '': '' @ statusMessage), disk1)
          else
            (case body of
               Finish bytes \<Rightarrow> Some (Inr (), disk1(destinationPath \<mapsto> Readable bytes))
             | FileError msg \<Rightarrow> Some (Inl msg, disk1(destinationPath := None))))"

subsection \<open>runSecurityGates and run\<close>

text \<open>
  The gates call \<open>requireValidApiKey\<close>, \<open>ensureBinaryAvailable\<close>,
  \<open>BinaryIntegrityVerifier.quickVerify\<close>, \<open>runCompatibilityChecks\<close> and
  \<open>runPostInstallTasks\<close>. Each may do anything to the world \<open>'w\<close> (files, network,
  console) and returns a value or throws (\<open>Inl\<close> the error's message); the sequencer
  is modelled for every behaviour of theirs. The list of calls records which of them
  the sequencer invoked, in order. The lines written with \<open>this.log\<close> are left out.
\<close>

record api_key_result =
  key :: string
  tier :: string
  valid :: bool

record compatibility =
  nodeVersion_passed :: bool
  platform_passed :: bool
  permissions_passed :: bool

record 'w collaborators =
  requireValidApiKey :: "'w \<Rightarrow> (string + api_key_result) \<times> 'w"
  ensureBinaryAvailable :: "'w \<Rightarrow> (string + string) \<times> 'w"
  quickVerify :: "'w \<Rightarrow> (string + verification_result) \<times> 'w"
  runCompatibilityChecks :: "'w \<Rightarrow> compatibility \<times> 'w"
  runPostInstallTasks :: "'w \<Rightarrow> 'w"

datatype call =
    Call_requireValidApiKey
  | Call_ensureBinaryAvailable
  | Call_quickVerify
  | Call_runCompatibilityChecks
  | Call_runPostInstallTasks
  | Call_showFailureMessage
  | Call_showSuccessMessage
  | Call_process_exit nat

record gate_results =
  apiKey :: "api_key_result option"
  binaryIntegrity :: "verification_result option"
  binaryAvailable :: "string option"
  overall :: bool
  errors :: "string list"
  warnings :: "string list"
  skippedInCI :: bool

definition initial_results :: "installer \<Rightarrow> gate_results" where
  "initial_results I =
     \<lparr> apiKey = None, binaryIntegrity = None, binaryAvailable = None, overall = False,
       errors = [], warnings = [], skippedInCI = isCI I \<rparr>"

definition runSecurityGates ::
    "'w collaborators \<Rightarrow> installer \<Rightarrow> 'w \<Rightarrow> gate_results \<times> 'w \<times> call list" where
  "runSecurityGates C I w =
     (let results = initial_results I in
      if isCI I then (results\<lparr>overall := True\<rparr>, w, [])
      else
        (case requireValidApiKey C w of
           (Inl msg, w1) \<Rightarrow>
             (results\<lparr>errors := errors results @ [''API Key: '' @ msg]\<rparr>, w1,
              [Call_requireValidApiKey])
         | (Inr apiKeyResult, w1) \<Rightarrow>
             (let results1 = results\<lparr>apiKey := Some apiKeyResult\<rparr> in
              case ensureBinaryAvailable C w1 of
                (Inl msg, w2) \<Rightarrow>
                  (results1\<lparr>errors := errors results1 @ [''Binary Availability: '' @ msg]\<rparr>, w2,
                   [Call_requireValidApiKey, Call_ensureBinaryAvailable])
              | (Inr binaryPath, w2) \<Rightarrow>
                  (let results2 = results1\<lparr>binaryAvailable := Some binaryPath\<rparr> in
                   case quickVerify C w2 of
                     (Inl msg, w3) \<Rightarrow>
                       (results2\<lparr>errors := errors results2 @ [''Binary Integrity: '' @ msg]\<rparr>, w3,
                        [Call_requireValidApiKey, Call_ensureBinaryAvailable, Call_quickVerify])
                   | (Inr binaryResult, w3) \<Rightarrow>
                       (results2\<lparr>binaryIntegrity := Some binaryResult,
                                 warnings :=
                                   (if isPlaceholder binaryResult
                                    then warnings results2 @ [''Using development placeholder binary'']
                                    else warnings results2),
                                 overall := True\<rparr>,
                        w3,
                        [Call_requireValidApiKey, Call_ensureBinaryAvailable, Call_quickVerify])))))"

text \<open>
  \<open>run\<close>: \<open>process.exit(1)\<close> ends the process, so nothing after it happens;
  \<open>Completed\<close> is the promise of \<open>run\<close> resolving. The compatibility checks
  and the post-install tasks catch their own errors, and \<open>runSecurityGates\<close> catches
  those of its gates, so the \<open>catch\<close> of \<open>run\<close> has nothing to handle.
\<close>

datatype outcome = Exited nat | Completed

definition hasIssues :: "compatibility \<Rightarrow> bool" where
  "hasIssues c = (\<not> nodeVersion_passed c \<or> \<not> platform_passed c \<or> \<not> permissions_passed c)"

definition run :: "'w collaborators \<Rightarrow> installer \<Rightarrow> 'w \<Rightarrow> outcome \<times> 'w \<times> call list" where
  "run C I w =
     (case runSecurityGates C I w of
        (securityResults, w1, t) \<Rightarrow>
          if \<not> overall securityResults
          then (Exited 1, w1, t @ [Call_showFailureMessage, Call_process_exit 1])
          else if \<not> isCI I
          then
            (case runCompatibilityChecks C w1 of
               (compatibilityResults, w2) \<Rightarrow>
                 if hasIssues compatibilityResults
                 then (Exited 1, w2,
                       t @ [Call_runCompatibilityChecks, Call_showFailureMessage, Call_process_exit 1])
                 else (Completed, runPostInstallTasks C w2,
                       t @ [Call_runCompatibilityChecks, Call_runPostInstallTasks,
                            Call_showSuccessMessage]))
          else (Completed, runPostInstallTasks C w1,
                t @ [Call_runPostInstallTasks, Call_showSuccessMessage]))"

section \<open>Concrete instances\<close>

text \<open>
  A package installed under \<open>/pkg\<close>, used to run the definitions on concrete
  inputs. The \<open>path\<close> functions are given for plain absolute POSIX paths (no
  \<open>..\<close> to normalise), SHA-256 for the two byte strings that get hashed (the digests
  are the real ones of \<open>abc\<close> and \<open>abd\<close>), and \<open>JSON.parse\<close> for the one manifest
  text on disk.
\<close>

definition posix_join :: "string list \<Rightarrow> string" where
  "posix_join parts = join_str parts ''/''"

definition posix_dirname :: "string \<Rightarrow> string" where
  "posix_dirname p = rev (tl (dropWhile (\<lambda>c. c \<noteq> CHR ''/'') (rev p)))"

definition posix_basename :: "string \<Rightarrow> string" where
  "posix_basename p = rev (takeWhile (\<lambda>c. c \<noteq> CHR ''/'') (rev p))"

definition sha256_abc :: string where
  "sha256_abc = ''ba7816bf8f01cfea414140de5dae2223b00361a396177a9cb410ff61f20015ad''"

definition sha256_abd :: string where
  "sha256_abd = ''a52d159f262b2c6ddb724a61840befc36eb30c88877a4030b65cbe86298449c9''"

definition sha256_table :: "string \<Rightarrow> string" where
  "sha256_table bytes =
     (if bytes = ''abc'' then sha256_abc else if bytes = ''abd'' then sha256_abd else [])"

definition linux_entry :: artifact_entry where
  "linux_entry =
     \<lparr> filename = ''opt-linux-x64'', sha256 = Some sha256_abc, size_e = Some 4,
       missing = False, dev_placeholder = False \<rparr>"

definition darwin_entry :: artifact_entry where
  "darwin_entry =
     \<lparr> filename = ''opt-darwin-arm64'', sha256 = None, size_e = None,
       missing = True, dev_placeholder = True \<rparr>"

definition example_manifest :: manifest_doc where
  "example_manifest =
     \<lparr> version = ''3.1.0'',
       binaries = [(''linux-x64'', linux_entry), (''darwin-arm64'', darwin_entry)] \<rparr>"

definition dq :: string where
  "dq = [CHR 0x22]"

definition example_manifest_text :: string where
  "example_manifest_text =
     ''{'' @ dq @ ''version'' @ dq @ '':'' @ dq @ ''3.1.0'' @ dq @ '','' @ dq @
     ''binaries'' @ dq @ '':{'' @ dq @ ''linux-x64'' @ dq @ '':{'' @ dq @ ''filename'' @
     dq @ '':'' @ dq @ ''opt-linux-x64'' @ dq @ '','' @ dq @ ''sha256'' @ dq @ '':'' @ dq @
     ''ba7816bf8f01cfea414140de5dae2223b00361a396177a9cb410ff61f20015ad'' @ dq @ '','' @
     dq @ ''size'' @ dq @ '':4,'' @ dq @ ''missing'' @ dq @ '':false,'' @ dq @
     ''dev_placeholder'' @ dq @ '':false},'' @ dq @ ''darwin-arm64'' @ dq @ '':{'' @ dq @
     ''filename'' @ dq @ '':'' @ dq @ ''opt-darwin-arm64'' @ dq @ '','' @ dq @ ''sha256'' @
     dq @ '':null,'' @ dq @ ''size'' @ dq @ '':null,'' @ dq @ ''missing'' @ dq @
     '':true,'' @ dq @ ''dev_placeholder'' @ dq @ '':true}}}''"

definition example_node :: "string \<Rightarrow> string \<Rightarrow> (string \<Rightarrow> string option) \<Rightarrow> fs \<Rightarrow> manifest_doc node" where
  "example_node os cpu environment disk =
     \<lparr> platform = os, arch = cpu, env = environment, dirname_lib = ''/pkg/lib'',
       path_join = posix_join, path_dirname = posix_dirname, path_basename = posix_basename,
       files = disk, mtime = (\<lambda>p. 0), sha256_hex = sha256_table,
       JSON_parse = (\<lambda>text. if text = example_manifest_text then Inr example_manifest
                              else Inl ''Unexpected end of JSON input''),
       truthy = (\<lambda>m. True) \<rparr>"

definition manifest_on_disk :: fs where
  "manifest_on_disk = [''/pkg/manifest.json'' \<mapsto> Readable example_manifest_text]"

definition example_verifier :: "manifest_doc verifier" where
  "example_verifier =
     \<lparr> manifestPath = ''/pkg/manifest.json'', manifest = None, devMode = False \<rparr>"

text \<open>
  The same for \<open>loadManifest\<close> alone, with the parsed document kept as JSON:
  \<open>JSON.parse\<close> is given for the text \<open>{}\<close>, the empty object.
\<close>

definition json_node :: "fs \<Rightarrow> json node" where
  "json_node disk =
     \<lparr> platform = ''linux'', arch = ''x64'', env = Map.empty, dirname_lib = ''/pkg/lib'',
       path_join = posix_join, path_dirname = posix_dirname, path_basename = posix_basename,
       files = disk, mtime = (\<lambda>p. 0), sha256_hex = sha256_table,
       JSON_parse = (\<lambda>text. if text = ''{}'' then Inr (JObj [])
                              else Inl ''Unexpected end of JSON input''),
       truthy = js_truthy \<rparr>"

definition json_verifier :: "json verifier" where
  "json_verifier = \<lparr> manifestPath = ''/pkg/manifest.json'', manifest = None, devMode = False \<rparr>"

text \<open>Collaborators of the gate sequencer over a world that counts nothing: gate 1 fails.\<close>

definition failing_key_check :: "unit collaborators" where
  "failing_key_check =
     \<lparr> requireValidApiKey = (\<lambda>w. (Inl ''No MCP Optimizer API key found.'', w)),
       ensureBinaryAvailable = (\<lambda>w. (Inr ''/pkg/bin/opt-linux-x64'', w)),
       quickVerify = (\<lambda>w. (Inl ''unreachable'', w)),
       runCompatibilityChecks =
         (\<lambda>w. (\<lparr> nodeVersion_passed = True, platform_passed = True, permissions_passed = True \<rparr>, w)),
       runPostInstallTasks = (\<lambda>w. w) \<rparr>"

text \<open>The disk with the manifest and the given bytes as the Linux artifact.\<close>

definition installed :: "string \<Rightarrow> fs" where
  "installed bytes = manifest_on_disk(''/pkg/bin/opt-linux-x64'' \<mapsto> Readable bytes)"

definition linux_node :: "string \<Rightarrow> manifest_doc node" where
  "linux_node bytes = example_node ''linux'' ''x64'' Map.empty (installed bytes)"

definition sunos_node :: "manifest_doc node" where
  "sunos_node = example_node ''sunos'' ''mips'' Map.empty manifest_on_disk"

definition darwin_node :: "manifest_doc node" where
  "darwin_node = example_node ''darwin'' ''arm64'' Map.empty manifest_on_disk"

definition loaded_verifier :: "manifest_doc verifier" where
  "loaded_verifier = example_verifier\<lparr>manifest := Some example_manifest\<rparr>"

text \<open>
  A verifier built in development mode, and one that has already loaded a production
  manifest in which the macOS artifact is missing and not flagged as a placeholder.
\<close>

definition dev_verifier :: "manifest_doc verifier" where
  "dev_verifier = loaded_verifier\<lparr>devMode := True\<rparr>"

definition prod_manifest :: manifest_doc where
  "prod_manifest =
     \<lparr> version = ''3.1.0'',
       binaries = [(''linux-x64'', linux_entry),
                   (''darwin-arm64'', darwin_entry\<lparr>dev_placeholder := False\<rparr>)] \<rparr>"

definition prod_verifier :: "manifest_doc verifier" where
  "prod_verifier = example_verifier\<lparr>manifest := Some prod_manifest\<rparr>"

text \<open>
  Two environments: a GitHub Actions build (\<open>CI\<close> and \<open>GITHUB_ACTIONS\<close> both set
  to \<open>true\<close>), and a machine where only \<open>CI\<close> is set.
\<close>

definition github_actions_node :: "manifest_doc node" where
  "github_actions_node =
     example_node ''linux'' ''x64'' [''CI'' \<mapsto> ''true'', ''GITHUB_ACTIONS'' \<mapsto> ''true''] Map.empty"

definition ci_only_node :: "manifest_doc node" where
  "ci_only_node = example_node ''linux'' ''x64'' [''CI'' \<mapsto> ''true''] Map.empty"

section \<open>Facts about the string functions\<close>

lemma startsWith_iff: "startsWith h n \<longleftrightarrow> (\<exists>s. h = n @ s)"
  unfolding startsWith_def
  by (metis append_eq_conv_conj append_take_drop_id)

lemma includes_str_iff: "includes_str h n \<longleftrightarrow> (\<exists>p s. h = p @ n @ s)"
proof (induction h)
  case Nil
  then show ?case by auto
next
  case (Cons c cs)
  show ?case
  proof
    assume "includes_str (c # cs) n"
    then consider "startsWith (c # cs) n" | "includes_str cs n" by auto
    then show "\<exists>p s. c # cs = p @ n @ s"
    proof cases
      case 1
      then obtain s where "c # cs = n @ s" by (auto simp: startsWith_iff)
      then have "c # cs = [] @ n @ s" by simp
      then show ?thesis by blast
    next
      case 2
      then obtain p s where "cs = p @ n @ s" using Cons.IH by auto
      then have "c # cs = (c # p) @ n @ s" by simp
      then show ?thesis by blast
    qed
  next
    assume "\<exists>p s. c # cs = p @ n @ s"
    then obtain p s where eq: "c # cs = p @ n @ s" by blast
    show "includes_str (c # cs) n"
    proof (cases p)
      case Nil
      with eq have "startsWith (c # cs) n" by (auto simp: startsWith_iff)
      then show ?thesis by simp
    next
      case (Cons a p')
      with eq have "cs = p' @ n @ s" by simp
      then have "includes_str cs n" using Cons.IH by blast
      then show ?thesis by simp
    qed
  qed
qed

lemma includes_str_length: "includes_str h n \<Longrightarrow> length n \<le> length h"
  unfolding includes_str_iff by auto

lemma includes_self: "includes_str n n"
  unfolding includes_str_iff by (metis append_Nil append_Nil2)

lemma includes_appendI1: "includes_str b n \<Longrightarrow> includes_str (a @ b) n"
  unfolding includes_str_iff by (metis append.assoc)

lemma includes_appendI2: "includes_str a n \<Longrightarrow> includes_str (a @ b) n"
  unfolding includes_str_iff by (metis append.assoc)

lemma includes_trans: "includes_str h m \<Longrightarrow> includes_str m n \<Longrightarrow> includes_str h n"
  unfolding includes_str_iff by (metis append.assoc)

lemma includes_join: "k \<in> set ks \<Longrightarrow> includes_str (join_str ks sep) k"
proof (induction ks sep rule: join_str.induct)
  case (1 sep)
  then show ?case by simp
next
  case (2 x sep)
  then show ?case by (simp add: includes_self)
next
  case (3 x y ys sep)
  then show ?case
    by (auto simp del: includes_str.simps intro: includes_appendI1 includes_appendI2 includes_self)
qed

lemmas includes_intros = includes_appendI1 includes_appendI2 includes_self

lemma mismatch_includes_expected:
  "includes_str (hash_mismatch_message b e a n) (template_opt e)"
  unfolding hash_mismatch_message_def
  by (fast intro: includes_intros)

lemma mismatch_includes_actual:
  "includes_str (hash_mismatch_message b e a n) a"
  unfolding hash_mismatch_message_def
  by (fast intro: includes_intros)

lemma mismatch_includes_size:
  "includes_str (hash_mismatch_message b e a n) (show_nat n)"
  unfolding hash_mismatch_message_def
  by (fast intro: includes_intros)

lemma no_binary_includes_keys:
  "includes_str (no_binary_message k ks os cpu) (join_str ks '', '')"
  unfolding no_binary_message_def
  by (fast intro: includes_intros)

lemma no_binary_includes_os:
  "includes_str (no_binary_message k ks os cpu) os"
  unfolding no_binary_message_def
  by (fast intro: includes_intros)

lemma no_binary_includes_cpu:
  "includes_str (no_binary_message k ks os cpu) cpu"
  unfolding no_binary_message_def
  by (fast intro: includes_intros)

lemma load_message_includes_path: "includes_str (manifest_load_message p msg) p"
  unfolding manifest_load_message_def
  by (fast intro: includes_intros)

lemma verification_failed_includes: "includes_str msg n \<Longrightarrow> includes_str (verification_failed msg) n"
  unfolding verification_failed_def by (rule includes_appendI1)

section \<open>Facts about the verifier\<close>

subsection \<open>loadManifest\<close>

lemma loadManifest_unloaded: "manifest V = None \<Longrightarrow> loadManifest N V = readManifest N V"
  unfolding loadManifest_def by simp

lemma readFileSync_cases:
  "files N p = None \<Longrightarrow> \<exists>msg. readFileSync N p = Inl msg"
  "files N p = Some (Unreadable msg) \<Longrightarrow> readFileSync N p = Inl msg"
  "files N p = Some (Readable src) \<Longrightarrow> readFileSync N p = Inr src"
  unfolding readFileSync_def by simp_all

lemma readManifest_cases:
  "readManifest N V = (r, V', t) \<Longrightarrow>
     t = [ReadFileSync (manifestPath V)] \<and> manifestPath V' = manifestPath V \<and> devMode V' = devMode V"
  unfolding readManifest_def by (auto split: sum.splits)

lemma loadManifest_cases:
  "loadManifest N V = (r, V', t) \<Longrightarrow>
     (t = [] \<or> t = [ReadFileSync (manifestPath V)]) \<and>
     manifestPath V' = manifestPath V \<and> devMode V' = devMode V"
  unfolding loadManifest_def
  by (auto split: option.splits if_splits dest: readManifest_cases)

lemma readManifest_fails:
  "readFileSync N (manifestPath V) = Inl msg \<Longrightarrow>
     readManifest N V = (Inl (manifest_load_message (manifestPath V) msg), V, [ReadFileSync (manifestPath V)])"
  "readFileSync N (manifestPath V) = Inr text \<Longrightarrow> JSON_parse N text = Inl msg \<Longrightarrow>
     readManifest N V = (Inl (manifest_load_message (manifestPath V) msg), V, [ReadFileSync (manifestPath V)])"
  "readFileSync N (manifestPath V) = Inr text \<Longrightarrow> JSON_parse N text = Inr m \<Longrightarrow>
     readManifest N V = (Inr m, V\<lparr>manifest := Some m\<rparr>, [ReadFileSync (manifestPath V)])"
  unfolding readManifest_def by simp_all

subsection \<open>verifyBinary\<close>

lemma verifyBinary_absent:
  "files N p = None \<Longrightarrow>
   verifyBinary N V p h e =
     (Inl (verification_failed (not_found_message p)),
      [ConsoleLog (emoji_magnifier @ '' Verifying binary integrity: '' @ path_basename N p), ExistsSync p])"
  unfolding verifyBinary_def existsSync_def by simp

lemma verifyBinary_placeholder:
  assumes "files N p = Some (Readable bytes)"
    and "length bytes < 10000" and "includes_str bytes ''placeholder''"
  shows "verifyBinary N V p h e =
     (if devMode V \<or> dev_placeholder e
      then (Inr \<lparr> verified = True, hash = Some ''placeholder'', size_r = Some (length bytes),
                  lastModified = None, isPlaceholder = True, devMode_r = Some True, platform_r = None \<rparr>,
            [ConsoleLog (emoji_magnifier @ '' Verifying binary integrity: '' @ path_basename N p),
             ExistsSync p, ReadFileSync p,
             ConsoleLog (emoji_warning @ ''  Development placeholder detected: '' @ path_basename N p),
             ConsoleLog (emoji_memo @ '' This will be replaced with real binary in CI/production'')])
      else (Inl (verification_failed (placeholder_in_production_message p)),
            [ConsoleLog (emoji_magnifier @ '' Verifying binary integrity: '' @ path_basename N p),
             ExistsSync p, ReadFileSync p]))"
  using assms unfolding verifyBinary_def existsSync_def readFileSync_def
  by (simp del: includes_str.simps)

lemma verifyBinary_real:
  assumes "files N p = Some (Readable bytes)"
    and "\<not> (length bytes < 10000 \<and> includes_str bytes ''placeholder'')"
  shows "verifyBinary N V p h e =
     (fst (hashAndCompare N p h e bytes),
      [ConsoleLog (emoji_magnifier @ '' Verifying binary integrity: '' @ path_basename N p),
       ExistsSync p, ReadFileSync p] @ snd (hashAndCompare N p h e bytes))"
  using assms unfolding verifyBinary_def existsSync_def readFileSync_def
  by (auto simp del: includes_str.simps simp: Let_def split: prod.splits)

lemma hashAndCompare_mismatch:
  "Some (sha256_hex N bytes) \<noteq> h \<Longrightarrow>
   fst (hashAndCompare N p h e bytes) =
     Inl (verification_failed
            (hash_mismatch_message (path_basename N p) h (sha256_hex N bytes) (length bytes)))"
  unfolding hashAndCompare_def by (simp add: Let_def)

lemma hashAndCompare_match:
  "h = Some (sha256_hex N bytes) \<Longrightarrow>
   hashAndCompare N p h e bytes =
     (Inr \<lparr> verified = True, hash = Some (sha256_hex N bytes), size_r = Some (length bytes),
             lastModified = Some (mtime N p), isPlaceholder = False,
             devMode_r = None, platform_r = None \<rparr>,
      [Sha256Digest bytes,
       ConsoleLog (emoji_chart @ '' Expected hash: '' @ sha256_hex N bytes),
       ConsoleLog (emoji_chart @ '' Actual hash:   '' @ sha256_hex N bytes),
       ConsoleLog (emoji_check @ '' Binary integrity verification passed''),
       StatSync p] @ sizeCheck (size_e e) (length bytes))"
  unfolding hashAndCompare_def by (simp add: Let_def)

lemma placeholder_message_distinct:
  "verification_failed (placeholder_in_production_message p) \<noteq>
     verification_failed (hash_mismatch_message b h' a n)"
  "verification_failed (placeholder_in_production_message p) \<noteq>
     verification_failed (not_found_message p')"
  "verification_failed (placeholder_in_production_message p) \<noteq> missing_in_production_message k"
  unfolding verification_failed_def placeholder_in_production_message_def hash_mismatch_message_def
    not_found_message_def missing_in_production_message_def
  by simp_all

subsection \<open>verifyCurrentPlatform\<close>

lemma verifyCurrentPlatform_unsupported:
  assumes "loadManifest N V = (Inr m, V', t)"
    and "map_of (binaries m) (detectPlatform N) = None"
  shows "verifyCurrentPlatform N V =
     (Inl (no_binary_message (detectPlatform N) (map fst (binaries m)) (platform N) (arch N)), V', t)"
  using assms unfolding verifyCurrentPlatform_def by (simp add: Let_def)

lemma verifyCurrentPlatform_missing:
  assumes "loadManifest N V = (Inr m, V', t)"
    and "map_of (binaries m) (detectPlatform N) = Some e" and "missing e"
  shows "verifyCurrentPlatform N V =
     (if devMode V \<or> dev_placeholder e
      then (Inr \<lparr> verified = True, hash = None, size_r = None, lastModified = None,
                  isPlaceholder = True, devMode_r = Some True,
                  platform_r = Some (detectPlatform N) \<rparr>,
            V',
            t @ [ConsoleLog (emoji_warning @ ''  Development mode: '' @ detectPlatform N @
                              '' binary is placeholder'')])
      else (Inl (missing_in_production_message (detectPlatform N)), V', t))"
  using assms loadManifest_cases[OF assms(1)] unfolding verifyCurrentPlatform_def
  by (simp add: Let_def)

lemma verifyCurrentPlatform_present:
  assumes "loadManifest N V = (Inr m, V', t)"
    and "map_of (binaries m) (detectPlatform N) = Some e" and "\<not> missing e"
  shows "verifyCurrentPlatform N V =
     (let p = path_join N [path_join N [path_dirname N (manifestPath V), ''bin''], filename e];
          r = verifyBinary N V' p (sha256 e) e
      in (case fst r of Inl msg \<Rightarrow> Inl msg
                      | Inr result \<Rightarrow> Inr (result\<lparr>platform_r := Some (detectPlatform N)\<rparr>),
          V', t @ snd r))"
  using assms loadManifest_cases[OF assms(1)] unfolding verifyCurrentPlatform_def
  by (auto simp: Let_def split: prod.splits sum.splits)

lemma devMode_constructor:
  "devMode (new_BinaryIntegrityVerifier N arg) \<longleftrightarrow>
     env N ''NODE_ENV'' = Some ''development'' \<or> env N ''MCP_DEV_MODE'' = Some ''true''"
  unfolding new_BinaryIntegrityVerifier_def by simp

lemma verifyCurrentPlatform_placeholder:
  assumes "loadManifest N V = (Inr m, V', t)"
    and "map_of (binaries m) (detectPlatform N) = Some e"
    and "\<not> missing e"
    and "files N (path_join N [path_join N [path_dirname N (manifestPath V), ''bin''], filename e])
           = Some (Readable bytes)"
    and "length bytes < 10000"
    and "includes_str bytes ''placeholder''"
  shows "fst (verifyCurrentPlatform N V) =
     (if devMode V \<or> dev_placeholder e
      then Inr \<lparr> verified = True, hash = Some ''placeholder'', size_r = Some (length bytes),
                 lastModified = None, isPlaceholder = True, devMode_r = Some True,
                 platform_r = Some (detectPlatform N) \<rparr>
      else Inl (verification_failed (placeholder_in_production_message
             (path_join N [path_join N [path_dirname N (manifestPath V), ''bin''], filename e]))))"
  using loadManifest_cases[OF assms(1)]
  by (simp add: verifyCurrentPlatform_present[OF assms(1,2,3)] Let_def
      verifyBinary_placeholder[OF assms(4,5,6)])

lemma verifyCurrentPlatform_size_ignored:
  assumes "loadManifest N V = (Inr m, V', t)"
    and "map_of (binaries m) (detectPlatform N) = Some e"
    and "\<not> missing e"
    and "files N (path_join N [path_join N [path_dirname N (manifestPath V), ''bin''], filename e])
           = Some (Readable bytes)"
    and "\<not> (length bytes < 10000 \<and> includes_str bytes ''placeholder'')"
    and "sha256 e = Some (sha256_hex N bytes)"
  shows "\<exists>r. fst (verifyCurrentPlatform N V) = Inr r \<and> verified r \<and> \<not> isPlaceholder r"
  by (simp add: verifyCurrentPlatform_present[OF assms(1,2,3)] Let_def
      verifyBinary_real[OF assms(4,5)] hashAndCompare_match[OF assms(6)])

subsection \<open>detectPlatform\<close>

lemma lookup_or_own:
  "map_of Object_prototype k = None \<Longrightarrow>
   lookup_or literal k dflt = (case map_of literal k of Some v \<Rightarrow> v | None \<Rightarrow> dflt)"
  unfolding lookup_or_def by (simp split: option.splits)

lemma platformMap_lookup:
  "(case map_of platformMap k of Some v \<Rightarrow> v | None \<Rightarrow> k) = k"
  unfolding platformMap_def by simp

lemma archMap_lookup:
  "(case map_of archMap k of Some v \<Rightarrow> v | None \<Rightarrow> ''x64'') =
     (if k \<in> {''x64'', ''x86_64''} then ''x64''
      else if k \<in> {''arm64'', ''aarch64''} then ''arm64''
      else ''x64'')"
  unfolding archMap_def by simp

section \<open>Facts about the installer\<close>

lemma detectCIEnvironment_env:
  "detectCIEnvironment N \<longleftrightarrow>
     ((env N ''CI'' = Some ''true'' \<or> env N ''CI'' = Some ''1'') \<and>
      (env N ''GITHUB_ACTIONS'' = Some ''true'' \<or> env N ''TRAVIS'' = Some ''true'' \<or>
       env N ''CIRCLECI'' = Some ''true'' \<or>
       (\<exists>url. env N ''JENKINS_URL'' = Some url \<and> url \<noteq> [])) \<or>
      env N ''OPTIMIZER_SKIP_SECURITY'' = Some ''true'')"
  unfolding detectCIEnvironment_def isStrictCI_def devOverride_def env_truthy_def
  by (auto split: option.splits)

lemma runSecurityGates_bypassed:
  "isCI I \<Longrightarrow>
   runSecurityGates C I w =
     (\<lparr> apiKey = None, binaryIntegrity = None, binaryAvailable = None, overall = True,
        errors = [], warnings = [], skippedInCI = True \<rparr>, w, [])"
  unfolding runSecurityGates_def initial_results_def by simp

lemma runSecurityGates_not_bypassed:
  "\<not> isCI I \<Longrightarrow>
   \<exists>results w' rest. runSecurityGates C I w = (results, w', Call_requireValidApiKey # rest) \<and>
     \<not> skippedInCI results"
  unfolding runSecurityGates_def initial_results_def
  by (auto simp: Let_def split: prod.splits sum.splits)

lemma run_gate1_fails:
  assumes "\<not> isCI I" and "requireValidApiKey C w = (Inl msg, w1)"
  shows "run C I w =
     (Exited 1, w1, [Call_requireValidApiKey, Call_showFailureMessage, Call_process_exit 1])"
  using assms unfolding run_def runSecurityGates_def initial_results_def by (simp add: Let_def)

lemma run_gate2_fails:
  assumes "\<not> isCI I" and "requireValidApiKey C w = (Inr a, w1)"
    and "ensureBinaryAvailable C w1 = (Inl msg, w2)"
  shows "run C I w =
     (Exited 1, w2,
      [Call_requireValidApiKey, Call_ensureBinaryAvailable, Call_showFailureMessage,
       Call_process_exit 1])"
  using assms unfolding run_def runSecurityGates_def initial_results_def by (simp add: Let_def)

lemma run_gate3_fails:
  assumes "\<not> isCI I" and "requireValidApiKey C w = (Inr a, w1)"
    and "ensureBinaryAvailable C w1 = (Inr binaryPath, w2)"
    and "quickVerify C w2 = (Inl msg, w3)"
  shows "run C I w =
     (Exited 1, w3,
      [Call_requireValidApiKey, Call_ensureBinaryAvailable, Call_quickVerify,
       Call_showFailureMessage, Call_process_exit 1])"
  using assms unfolding run_def runSecurityGates_def initial_results_def by (simp add: Let_def)

lemma run_gate4:
  assumes "\<not> isCI I" and "requireValidApiKey C w = (Inr a, w1)"
    and "ensureBinaryAvailable C w1 = (Inr binaryPath, w2)"
    and "quickVerify C w2 = (Inr r, w3)"
    and "runCompatibilityChecks C w3 = (c, w4)"
  shows "run C I w =
     (if hasIssues c
      then (Exited 1, w4,
            [Call_requireValidApiKey, Call_ensureBinaryAvailable, Call_quickVerify,
             Call_runCompatibilityChecks, Call_showFailureMessage, Call_process_exit 1])
      else (Completed, runPostInstallTasks C w4,
            [Call_requireValidApiKey, Call_ensureBinaryAvailable, Call_quickVerify,
             Call_runCompatibilityChecks, Call_runPostInstallTasks, Call_showSuccessMessage]))"
  using assms unfolding run_def runSecurityGates_def initial_results_def by (simp add: Let_def)

lemma show_nat_404: "show_nat 404 = ''404''"
  by (simp add: show_nat.simps digit_char_def)

lemma downloadFile_status_error_keeps_file:
  assumes "net url = Response statusCode statusMessage location b"
    and "statusCode \<noteq> 200" "statusCode \<noteq> 301" "statusCode \<noteq> 302"
  shows "downloadFile net url dest disk =
     Some (Inl (''HTTP '' @ show_nat statusCode @ '': '' @ statusMessage), disk(dest \<mapsto> Readable []))"
  using assms by (subst downloadFile.simps) simp

lemma downloadFile_request_error_keeps_file:
  assumes "net url = RequestError msg"
  shows "downloadFile net url dest disk = Some (Inl msg, disk(dest \<mapsto> Readable []))"
  using assms by (subst downloadFile.simps) simp

lemma downloadFile_file_error_unlinks:
  assumes "net url = Response 200 statusMessage location (FileError msg)"
  shows "downloadFile net url dest disk = Some (Inl msg, disk(dest := None))"
  using assms by (subst downloadFile.simps) simp

subsection \<open>The concrete instances\<close>

lemmas example_defs =
  example_node_def linux_node_def sunos_node_def darwin_node_def installed_def
  manifest_on_disk_def example_verifier_def loaded_verifier_def example_manifest_def
  linux_entry_def darwin_entry_def posix_join_def posix_dirname_def posix_basename_def
  sha256_table_def dev_verifier_def prod_manifest_def prod_verifier_def
  github_actions_node_def ci_only_node_def

lemma example_load:
  assumes "disk ''/pkg/manifest.json'' = Some (Readable example_manifest_text)"
  shows "loadManifest (example_node os cpu environment disk) example_verifier =
     (Inr example_manifest, loaded_verifier, [ReadFileSync ''/pkg/manifest.json''])"
  using assms
  by (simp add: loadManifest_def readManifest_def readFileSync_def example_node_def
      example_verifier_def loaded_verifier_def)

lemma sunos_load:
  "loadManifest sunos_node example_verifier =
     (Inr example_manifest, loaded_verifier, [ReadFileSync ''/pkg/manifest.json''])"
  unfolding sunos_node_def by (rule example_load) (simp add: manifest_on_disk_def)

lemma darwin_load:
  "loadManifest darwin_node example_verifier =
     (Inr example_manifest, loaded_verifier, [ReadFileSync ''/pkg/manifest.json''])"
  unfolding darwin_node_def by (rule example_load) (simp add: manifest_on_disk_def)

lemma linux_load:
  "loadManifest (linux_node bytes) example_verifier =
     (Inr example_manifest, loaded_verifier, [ReadFileSync ''/pkg/manifest.json''])"
  unfolding linux_node_def by (rule example_load) (simp add: manifest_on_disk_def installed_def)

lemma example_detect:
  "detectPlatform sunos_node = ''sunos-x64''"
  "detectPlatform darwin_node = ''darwin-arm64''"
  "detectPlatform (linux_node bytes) = ''linux-x64''"
  by (simp_all add: detectPlatform_def lookup_or_def platformMap_def archMap_def
      Object_prototype_def example_node_def sunos_node_def darwin_node_def linux_node_def)

lemma linux_artifact_path:
  "path_join (linux_node bytes)
     [path_join (linux_node bytes) [path_dirname (linux_node bytes) (manifestPath example_verifier), ''bin''],
      filename linux_entry] = ''/pkg/bin/opt-linux-x64''"
  by (simp add: example_defs)

lemma linux_artifact:
  "files (linux_node bytes) ''/pkg/bin/opt-linux-x64'' = Some (Readable bytes)"
  by (simp add: example_defs)

lemma linux_entry_found: "map_of (binaries example_manifest) (detectPlatform (linux_node bytes)) = Some linux_entry"
  by (simp add: example_detect example_manifest_def)

lemma linux_entry_present: "\<not> missing linux_entry" by (simp add: linux_entry_def)

lemma linux_artifact_at_path: "files (linux_node bytes)
      (path_join (linux_node bytes)
        [path_join (linux_node bytes) [path_dirname (linux_node bytes) (manifestPath example_verifier), ''bin''],
         filename linux_entry]) = Some (Readable bytes)"
    unfolding linux_artifact_path by (rule linux_artifact)

lemma three_bytes_real: "length bytes = 3 \<Longrightarrow> \<not> (length bytes < 10000 \<and> includes_str bytes ''placeholder'')"
  using includes_str_length[of bytes "''placeholder''"] by auto

lemma example_digests: "sha256_hex (linux_node ''abc'') ''abc'' = sha256_abc"
    "sha256_hex (linux_node ''abd'') ''abd'' = sha256_abd"
    by (simp_all add: example_defs)

lemma linux_entry_sha256: "sha256 linux_entry = Some sha256_abc" by (simp add: linux_entry_def)

lemma example_digests_differ: "Some sha256_abd \<noteq> Some sha256_abc" by (simp add: sha256_abc_def sha256_abd_def)

lemma placeholder_file_is_placeholder:
  "length ''# placeholder binary'' < 10000" "includes_str ''# placeholder binary'' ''placeholder''"
  by (simp_all add: startsWith_def)

lemma prod_load:
  "loadManifest darwin_node prod_verifier = (Inr prod_manifest, prod_verifier, [])"
  by (simp add: loadManifest_def example_defs)

section \<open>Platform detection\<close>

text \<open>
  C8. Platform detection returns \<open>{os}-{arch}\<close>: the architecture strings \<open>x64\<close> and
  \<open>x86_64\<close> give \<open>x64\<close>, \<open>arm64\<close> and \<open>aarch64\<close> give \<open>arm64\<close>, every other
  architecture string gives \<open>x64\<close>; \<open>win32\<close>, \<open>darwin\<close> and \<open>linux\<close> map to
  themselves and every other operating-system name passes through unchanged, so
  detection always yields a key. The two strings are the values of \<open>process.platform\<close>
  and \<open>process.arch\<close>, which are never the name of a member of \<open>Object.prototype\<close>
  (for such a name the lookup in the object literal would find the inherited member).
\<close>

theorem detectPlatform_key:
  assumes "platform N \<notin> fst ` set Object_prototype"
    and "arch N \<notin> fst ` set Object_prototype"
  shows "detectPlatform N =
           platform N @ ''-'' @
           (if arch N \<in> {''x64'', ''x86_64''} then ''x64''
            else if arch N \<in> {''arm64'', ''aarch64''} then ''arm64''
            else ''x64'')"
proof -
  have p_none: "map_of Object_prototype (platform N) = None"
    using assms(1) by (rule map_of_eq_None_iff[THEN iffD2])
  have a_none: "map_of Object_prototype (arch N) = None"
    using assms(2) by (rule map_of_eq_None_iff[THEN iffD2])
  show ?thesis
    unfolding detectPlatform_def Let_def lookup_or_own[OF p_none] lookup_or_own[OF a_none]
      platformMap_lookup archMap_lookup ..
qed

theorem detectPlatform_key_witness:
  "platform sunos_node \<notin> fst ` set Object_prototype \<and>
   arch sunos_node \<notin> fst ` set Object_prototype \<and>
   detectPlatform sunos_node = ''sunos-x64''"
proof -
  have h1: "platform sunos_node \<notin> fst ` set Object_prototype"
    by (simp add: example_defs Object_prototype_def)
  have h2: "arch sunos_node \<notin> fst ` set Object_prototype"
    by (simp add: example_defs Object_prototype_def)
  have "detectPlatform sunos_node = ''sunos-x64''"
    using detectPlatform_key[OF h1 h2] by (simp add: example_defs)
  with h1 h2 show ?thesis by blast
qed

section \<open>Verification of the current platform\<close>

text \<open>
  C7. When the detected platform key has no entry in the manifest's \<open>binaries\<close>,
  verification of the current platform fails with the unsupported-platform error, and
  its message contains every platform key of the manifest and the raw
  \<open>process.platform\<close> and \<open>process.arch\<close> strings.
\<close>

theorem unsupported_platform_error:
  assumes "loadManifest N V = (Inr m, V', t)"
    and "map_of (binaries m) (detectPlatform N) = None"
  shows "\<exists>msg. fst (verifyCurrentPlatform N V) = Inl msg \<and>
           msg = no_binary_message (detectPlatform N) (map fst (binaries m)) (platform N) (arch N) \<and>
           (\<forall>k \<in> fst ` set (binaries m). includes_str msg k) \<and>
           includes_str msg (platform N) \<and> includes_str msg (arch N)"
proof -
  let ?msg = "no_binary_message (detectPlatform N) (map fst (binaries m)) (platform N) (arch N)"
  have res: "fst (verifyCurrentPlatform N V) = Inl ?msg"
    by (simp add: verifyCurrentPlatform_unsupported[OF assms])
  have keys: "\<forall>k \<in> fst ` set (binaries m). includes_str ?msg k"
  proof
    fix k assume "k \<in> fst ` set (binaries m)"
    then have "k \<in> set (map fst (binaries m))" by simp
    then have "includes_str (join_str (map fst (binaries m)) '', '') k" by (rule includes_join)
    with no_binary_includes_keys show "includes_str ?msg k" by (rule includes_trans)
  qed
  have os: "includes_str ?msg (platform N)" by (rule no_binary_includes_os)
  have cpu: "includes_str ?msg (arch N)" by (rule no_binary_includes_cpu)
  from res keys os cpu show ?thesis by (intro exI[of _ ?msg] conjI refl)
qed

theorem unsupported_platform_error_witness:
  "loadManifest sunos_node example_verifier =
     (Inr example_manifest, loaded_verifier, [ReadFileSync ''/pkg/manifest.json'']) \<and>
   map_of (binaries example_manifest) (detectPlatform sunos_node) = None \<and>
   (\<exists>msg. fst (verifyCurrentPlatform sunos_node example_verifier) = Inl msg \<and>
      includes_str msg ''linux-x64'' \<and> includes_str msg ''darwin-arm64'' \<and>
      includes_str msg ''sunos'' \<and> includes_str msg ''mips'')"
proof -
  have h2: "map_of (binaries example_manifest) (detectPlatform sunos_node) = None"
    by (simp add: example_detect example_manifest_def)
  have os: "platform sunos_node = ''sunos''" and cpu: "arch sunos_node = ''mips''"
    by (simp_all add: example_defs)
  have ks: "fst ` set (binaries example_manifest) = {''linux-x64'', ''darwin-arm64''}"
    by (simp add: example_manifest_def)
  from unsupported_platform_error[OF sunos_load h2]
  have "\<exists>msg. fst (verifyCurrentPlatform sunos_node example_verifier) = Inl msg \<and>
      includes_str msg ''linux-x64'' \<and> includes_str msg ''darwin-arm64'' \<and>
      includes_str msg ''sunos'' \<and> includes_str msg ''mips''"
    unfolding os cpu ks by blast
  with sunos_load h2 show ?thesis by blast
qed

text \<open>
  C1. For a manifest entry with \<open>missing = false\<close> whose artifact is on disk and is
  not classified as a placeholder (whatever the entry's \<open>dev_placeholder\<close> flag): if
  the SHA-256 digest of the file differs from the entry's \<open>sha256\<close>, verification
  fails with the hash-mismatch error, whose message contains the expected digest, the
  actual digest and the file size; if they are equal, it returns \<open>verified = true\<close>
  and \<open>isPlaceholder = false\<close>.
\<close>

theorem hash_mismatch_fails_match_verifies:
  assumes "loadManifest N V = (Inr m, V', t)"
    and "map_of (binaries m) (detectPlatform N) = Some e"
    and "\<not> missing e"
    and "files N (path_join N [path_join N [path_dirname N (manifestPath V), ''bin''], filename e])
           = Some (Readable bytes)"
    and "\<not> (length bytes < 10000 \<and> includes_str bytes ''placeholder'')"
  shows "(Some (sha256_hex N bytes) \<noteq> sha256 e \<longrightarrow>
            (\<exists>msg. fst (verifyCurrentPlatform N V) = Inl msg \<and>
                   msg = verification_failed
                           (hash_mismatch_message
                              (path_basename N
                                 (path_join N [path_join N [path_dirname N (manifestPath V), ''bin''],
                                               filename e]))
                              (sha256 e) (sha256_hex N bytes) (length bytes)) \<and>
                   includes_str msg (template_opt (sha256 e)) \<and>
                   includes_str msg (sha256_hex N bytes) \<and>
                   includes_str msg (show_nat (length bytes)))) \<and>
         (Some (sha256_hex N bytes) = sha256 e \<longrightarrow>
            (\<exists>r. fst (verifyCurrentPlatform N V) = Inr r \<and> verified r \<and> \<not> isPlaceholder r))"
proof (intro conjI impI)
  let ?p = "path_join N [path_join N [path_dirname N (manifestPath V), ''bin''], filename e]"
  note vb = verifyBinary_real[OF assms(4) assms(5)]
  note vcp = verifyCurrentPlatform_present[OF assms(1) assms(2) assms(3)]
  {
    assume ne: "Some (sha256_hex N bytes) \<noteq> sha256 e"
    let ?msg = "verification_failed
       (hash_mismatch_message (path_basename N ?p) (sha256 e) (sha256_hex N bytes) (length bytes))"
    have "fst (verifyCurrentPlatform N V) = Inl ?msg"
      by (simp add: vcp vb Let_def hashAndCompare_mismatch[OF ne])
    moreover have "includes_str ?msg (template_opt (sha256 e))"
      by (rule verification_failed_includes) (rule mismatch_includes_expected)
    moreover have "includes_str ?msg (sha256_hex N bytes)"
      by (rule verification_failed_includes) (rule mismatch_includes_actual)
    moreover have "includes_str ?msg (show_nat (length bytes))"
      by (rule verification_failed_includes) (rule mismatch_includes_size)
    ultimately show "\<exists>msg. fst (verifyCurrentPlatform N V) = Inl msg \<and>
                   msg = verification_failed
                           (hash_mismatch_message
                              (path_basename N
                                 (path_join N [path_join N [path_dirname N (manifestPath V), ''bin''],
                                               filename e]))
                              (sha256 e) (sha256_hex N bytes) (length bytes)) \<and>
                   includes_str msg (template_opt (sha256 e)) \<and>
                   includes_str msg (sha256_hex N bytes) \<and>
                   includes_str msg (show_nat (length bytes))"
      by (intro exI[of _ ?msg] conjI refl)
  }
  {
    assume eq: "Some (sha256_hex N bytes) = sha256 e"
    then have "sha256 e = Some (sha256_hex N bytes)" by simp
    then show "\<exists>r. fst (verifyCurrentPlatform N V) = Inr r \<and> verified r \<and> \<not> isPlaceholder r"
      by (simp add: vcp vb Let_def hashAndCompare_match)
  }
qed

theorem hash_mismatch_fails_match_verifies_witness:
  "(\<exists>msg. fst (verifyCurrentPlatform (linux_node ''abd'') example_verifier) = Inl msg \<and>
      includes_str msg sha256_abc \<and> includes_str msg sha256_abd) \<and>
   (\<exists>r. fst (verifyCurrentPlatform (linux_node ''abc'') example_verifier) = Inr r \<and>
      verified r \<and> \<not> isPlaceholder r)"
proof -
  have 1: "\<exists>msg. fst (verifyCurrentPlatform (linux_node ''abd'') example_verifier) = Inl msg \<and>
      includes_str msg sha256_abc \<and> includes_str msg sha256_abd"
    using hash_mismatch_fails_match_verifies[OF linux_load linux_entry_found linux_entry_present
        linux_artifact_at_path three_bytes_real, of "''abd''"] example_digests_differ
    unfolding example_digests linux_entry_sha256 by simp
  have 2: "\<exists>r. fst (verifyCurrentPlatform (linux_node ''abc'') example_verifier) = Inr r \<and>
      verified r \<and> \<not> isPlaceholder r"
    using hash_mismatch_fails_match_verifies[OF linux_load linux_entry_found linux_entry_present
        linux_artifact_at_path three_bytes_real, of "''abc''"]
    unfolding example_digests linux_entry_sha256 by simp
  from 1 2 show ?thesis by (rule conjI)
qed

text \<open>
  C10. For an entry with \<open>missing = true\<close>, verification of the current platform is
  decided from the manifest alone: it returns \<open>verified = true\<close>,
  \<open>isPlaceholder = true\<close> when development mode is active or the entry is flagged
  \<open>dev_placeholder\<close>, and fails with the missing-in-production error otherwise. No
  \<open>existsSync\<close>, no \<open>statSync\<close> and no digest happens, and the only file that
  may be read is the manifest itself, when \<open>loadManifest\<close> has not loaded it yet.
\<close>

theorem missing_entry_decided_without_files:
  assumes "loadManifest N V = (Inr m, V', t)"
    and "map_of (binaries m) (detectPlatform N) = Some e"
    and "missing e"
  shows "(devMode V \<or> dev_placeholder e \<longrightarrow>
            (\<exists>r. fst (verifyCurrentPlatform N V) = Inr r \<and> verified r \<and> isPlaceholder r)) \<and>
         (\<not> (devMode V \<or> dev_placeholder e) \<longrightarrow>
            fst (verifyCurrentPlatform N V) = Inl (missing_in_production_message (detectPlatform N))) \<and>
         (\<forall>ev \<in> set (snd (snd (verifyCurrentPlatform N V))).
            ev \<notin> range ExistsSync \<and> ev \<notin> range StatSync \<and> ev \<notin> range Sha256Digest \<and>
            (ev \<in> range ReadFileSync \<longrightarrow> ev = ReadFileSync (manifestPath V)))"
  unfolding verifyCurrentPlatform_missing[OF assms]
  using loadManifest_cases[OF assms(1)] by auto

theorem missing_entry_decided_without_files_witness:
  "(\<exists>r. fst (verifyCurrentPlatform darwin_node example_verifier) = Inr r \<and>
        verified r \<and> isPlaceholder r) \<and>
   snd (snd (verifyCurrentPlatform darwin_node example_verifier)) =
     [ReadFileSync ''/pkg/manifest.json'',
      ConsoleLog (emoji_warning @ ''  Development mode: darwin-arm64 binary is placeholder'')] \<and>
   verifyCurrentPlatform darwin_node prod_verifier =
     (Inl (missing_in_production_message ''darwin-arm64''), prod_verifier, [])"
proof -
  have e1: "map_of (binaries example_manifest) (detectPlatform darwin_node) = Some darwin_entry"
    by (simp add: example_detect example_manifest_def)
  have m1: "missing darwin_entry" by (simp add: darwin_entry_def)
  have d1: "devMode example_verifier \<or> dev_placeholder darwin_entry" by (simp add: darwin_entry_def)
  have e2: "map_of (binaries prod_manifest) (detectPlatform darwin_node) =
      Some (darwin_entry\<lparr>dev_placeholder := False\<rparr>)"
    by (simp add: example_detect prod_manifest_def)
  have m2: "missing (darwin_entry\<lparr>dev_placeholder := False\<rparr>)" by (simp add: darwin_entry_def)
  have d2: "\<not> (devMode prod_verifier \<or> dev_placeholder (darwin_entry\<lparr>dev_placeholder := False\<rparr>))"
    by (simp add: example_defs)
  from missing_entry_decided_without_files[OF darwin_load e1 m1] d1
  have 1: "\<exists>r. fst (verifyCurrentPlatform darwin_node example_verifier) = Inr r \<and>
        verified r \<and> isPlaceholder r" by blast
  have 2: "snd (snd (verifyCurrentPlatform darwin_node example_verifier)) =
     [ReadFileSync ''/pkg/manifest.json'',
      ConsoleLog (emoji_warning @ ''  Development mode: darwin-arm64 binary is placeholder'')]"
    using d1 by (simp add: verifyCurrentPlatform_missing[OF darwin_load e1 m1] example_detect)
  from missing_entry_decided_without_files[OF prod_load e2 m2] d2
  have "fst (verifyCurrentPlatform darwin_node prod_verifier) =
      Inl (missing_in_production_message ''darwin-arm64'')"
    unfolding example_detect by blast
  moreover have "snd (verifyCurrentPlatform darwin_node prod_verifier) = (prod_verifier, [])"
    using d2 by (simp add: verifyCurrentPlatform_missing[OF prod_load e2 m2])
  ultimately have 3: "verifyCurrentPlatform darwin_node prod_verifier =
     (Inl (missing_in_production_message ''darwin-arm64''), prod_verifier, [])"
    by (simp add: prod_eq_iff)
  from 1 2 3 show ?thesis by blast
qed

section \<open>Verification of one artifact\<close>

text \<open>
  C2. An artifact on disk that is smaller than 10000 bytes and contains the marker
  \<open>placeholder\<close> is classified as a placeholder by \<open>verifyBinary\<close>: the call
  returns \<open>verified = true\<close>, \<open>isPlaceholder = true\<close> exactly when development
  mode is active or the entry is flagged \<open>dev_placeholder\<close>, and otherwise fails with
  the placeholder-in-production error, whose message differs from those of the
  hash-mismatch and the not-found error. No digest is computed on either path.
\<close>

theorem placeholder_classification:
  assumes "files N p = Some (Readable bytes)"
    and "length bytes < 10000"
    and "includes_str bytes ''placeholder''"
  shows "((\<exists>r. fst (verifyBinary N V p h e) = Inr r \<and> verified r \<and> isPlaceholder r) \<longleftrightarrow>
            (devMode V \<or> dev_placeholder e)) \<and>
         (\<not> (devMode V \<or> dev_placeholder e) \<longrightarrow>
            fst (verifyBinary N V p h e) =
              Inl (verification_failed (placeholder_in_production_message p))) \<and>
         (\<forall>b. Sha256Digest b \<notin> set (snd (verifyBinary N V p h e))) \<and>
         (\<forall>b h' a n. verification_failed (placeholder_in_production_message p) \<noteq>
            verification_failed (hash_mismatch_message b h' a n)) \<and>
         (\<forall>p'. verification_failed (placeholder_in_production_message p) \<noteq>
            verification_failed (not_found_message p'))"
  unfolding verifyBinary_placeholder[OF assms]
  using placeholder_message_distinct(1,2) by simp

theorem placeholder_classification_witness:
  "fst (verifyBinary (linux_node ''# placeholder binary'') loaded_verifier
          ''/pkg/bin/opt-linux-x64'' (sha256 linux_entry) linux_entry) =
     Inl (verification_failed (placeholder_in_production_message ''/pkg/bin/opt-linux-x64'')) \<and>
   (\<exists>r. fst (verifyBinary (linux_node ''# placeholder binary'') dev_verifier
                ''/pkg/bin/opt-linux-x64'' (sha256 linux_entry) linux_entry) = Inr r \<and>
        verified r \<and> isPlaceholder r)"
proof -
  note c = placeholder_classification[OF linux_artifact placeholder_file_is_placeholder,
      of _ "sha256 linux_entry" linux_entry]
  have prod: "\<not> (devMode loaded_verifier \<or> dev_placeholder linux_entry)"
    by (simp add: example_defs)
  have dev: "devMode dev_verifier \<or> dev_placeholder linux_entry"
    by (simp add: example_defs)
  from c[of loaded_verifier] prod
  have 1: "fst (verifyBinary (linux_node ''# placeholder binary'') loaded_verifier
          ''/pkg/bin/opt-linux-x64'' (sha256 linux_entry) linux_entry) =
     Inl (verification_failed (placeholder_in_production_message ''/pkg/bin/opt-linux-x64''))"
    by blast
  from c[of dev_verifier] dev
  have 2: "\<exists>r. fst (verifyBinary (linux_node ''# placeholder binary'') dev_verifier
                ''/pkg/bin/opt-linux-x64'' (sha256 linux_entry) linux_entry) = Inr r \<and>
        verified r \<and> isPlaceholder r"
    by blast
  from 1 2 show ?thesis by (rule conjI)
qed

text \<open>
  C9. When the computed digest equals the recorded one and the size of the file differs
  from the recorded size, \<open>verifyBinary\<close> still returns \<open>verified = true\<close>; the
  mismatch is only logged, as the last line of the call (a recorded size of \<open>0\<close> is
  falsy and not even logged).
\<close>

theorem size_mismatch_not_fatal:
  assumes "files N p = Some (Readable bytes)"
    and "\<not> (length bytes < 10000 \<and> includes_str bytes ''placeholder'')"
    and "size_e e = Some n"
    and "n \<noteq> length bytes"
  shows "fst (verifyBinary N V p (Some (sha256_hex N bytes)) e) =
           Inr \<lparr> verified = True, hash = Some (sha256_hex N bytes), size_r = Some (length bytes),
                 lastModified = Some (mtime N p), isPlaceholder = False,
                 devMode_r = None, platform_r = None \<rparr> \<and>
         (n \<noteq> 0 \<longrightarrow>
            last (snd (verifyBinary N V p (Some (sha256_hex N bytes)) e)) =
              ConsoleLog (size_warning n (length bytes)))"
  unfolding verifyBinary_real[OF assms(1,2)]
  using assms(3,4) by (simp add: hashAndCompare_match sizeCheck_def)

theorem size_mismatch_not_fatal_witness:
  "size_e linux_entry = Some 4 \<and> 4 \<noteq> length ''abc'' \<and>
   fst (verifyBinary (linux_node ''abc'') loaded_verifier ''/pkg/bin/opt-linux-x64''
          (Some sha256_abc) linux_entry) =
     Inr \<lparr> verified = True, hash = Some sha256_abc, size_r = Some 3, lastModified = Some 0,
           isPlaceholder = False, devMode_r = None, platform_r = None \<rparr> \<and>
   last (snd (verifyBinary (linux_node ''abc'') loaded_verifier ''/pkg/bin/opt-linux-x64''
          (Some sha256_abc) linux_entry)) = ConsoleLog (size_warning 4 3)"
proof -
  have h3: "size_e linux_entry = Some 4" by (simp add: linux_entry_def)
  have h4: "4 \<noteq> length ''abc''" by simp
  have real: "\<not> (length ''abc'' < 10000 \<and> includes_str ''abc'' ''placeholder'')"
    by (rule three_bytes_real) simp
  have mt: "mtime (linux_node ''abc'') ''/pkg/bin/opt-linux-x64'' = 0"
    by (simp add: example_defs)
  have len: "length ''abc'' = 3" by simp
  from size_mismatch_not_fatal[OF linux_artifact real h3 h4, of loaded_verifier]
  show ?thesis unfolding example_digests mt len using h3 by simp
qed

section \<open>Loading the manifest\<close>

text \<open>
  C6, first half, and what the code does in place of the second. When nothing is
  loaded yet, \<open>loadManifest\<close> fails with an error whose message contains the
  attempted path whenever the file is absent, unreadable, or is not well-formed JSON.
  A text that parses is returned as the manifest whatever it contains: the function
  checks no schema.
\<close>

theorem loadManifest_error_names_path:
  assumes "manifest V = None"
  shows "(files N (manifestPath V) = None \<or>
          (\<exists>msg. files N (manifestPath V) = Some (Unreadable msg)) \<or>
          (\<exists>src msg. files N (manifestPath V) = Some (Readable src) \<and> JSON_parse N src = Inl msg)
          \<longrightarrow> (\<exists>err. fst (loadManifest N V) = Inl err \<and> includes_str err (manifestPath V))) \<and>
         (\<forall>src m. files N (manifestPath V) = Some (Readable src) \<and> JSON_parse N src = Inr m
          \<longrightarrow> fst (loadManifest N V) = Inr m)"
proof (intro conjI impI allI)
  assume "files N (manifestPath V) = None \<or>
          (\<exists>msg. files N (manifestPath V) = Some (Unreadable msg)) \<or>
          (\<exists>src msg. files N (manifestPath V) = Some (Readable src) \<and> JSON_parse N src = Inl msg)"
  then consider
      (unread) msg where "readFileSync N (manifestPath V) = Inl msg"
    | (malformed) src msg where "readFileSync N (manifestPath V) = Inr src" "JSON_parse N src = Inl msg"
    using readFileSync_cases[of N "manifestPath V"] by blast
  then have "\<exists>msg. fst (loadManifest N V) = Inl (manifest_load_message (manifestPath V) msg)"
  proof cases
    case unread
    then have "fst (loadManifest N V) = Inl (manifest_load_message (manifestPath V) msg)"
      by (simp add: loadManifest_unloaded[OF assms] readManifest_fails(1))
    then show ?thesis ..
  next
    case malformed
    then have "fst (loadManifest N V) = Inl (manifest_load_message (manifestPath V) msg)"
      by (simp add: loadManifest_unloaded[OF assms] readManifest_fails(2))
    then show ?thesis ..
  qed
  then show "\<exists>err. fst (loadManifest N V) = Inl err \<and> includes_str err (manifestPath V)"
    using load_message_includes_path by blast
next
  fix src m
  assume "files N (manifestPath V) = Some (Readable src) \<and> JSON_parse N src = Inr m"
  then have "readFileSync N (manifestPath V) = Inr src" "JSON_parse N src = Inr m"
    by (simp_all add: readFileSync_cases(3))
  then show "fst (loadManifest N V) = Inr m"
    by (simp add: loadManifest_unloaded[OF assms] readManifest_fails(3))
qed

theorem loadManifest_error_names_path_witness:
  "manifest json_verifier = None \<and>
   files (json_node Map.empty) (manifestPath json_verifier) = None \<and>
   (\<exists>err. fst (loadManifest (json_node Map.empty) json_verifier) = Inl err \<and>
      includes_str err ''/pkg/manifest.json'')"
proof -
  have h: "manifest json_verifier = None" by (simp add: json_verifier_def)
  have a: "files (json_node Map.empty) (manifestPath json_verifier) = None"
    by (simp add: json_node_def)
  have p: "manifestPath json_verifier = ''/pkg/manifest.json''" by (simp add: json_verifier_def)
  from loadManifest_error_names_path[OF h, of "json_node Map.empty"] a
  have "\<exists>err. fst (loadManifest (json_node Map.empty) json_verifier) = Inl err \<and>
      includes_str err (manifestPath json_verifier)" by blast
  then have "\<exists>err. fst (loadManifest (json_node Map.empty) json_verifier) = Inl err \<and>
      includes_str err ''/pkg/manifest.json''" unfolding p .
  with h a show ?thesis by blast
qed

text \<open>
  C6 as stated says that a parseable document missing required fields is a hard
  failure of the load. The file \<open>{}\<close> parses to the empty object, which has no
  \<open>version\<close>, no \<open>binaries\<close> and no \<open>security\<close>, and \<open>loadManifest\<close>
  returns it.
\<close>

theorem loadManifest_accepts_document_without_fields:
  "fst (loadManifest (json_node [''/pkg/manifest.json'' \<mapsto> Readable ''{}'']) json_verifier) = Inr (JObj []) \<and>
   json_member (JObj []) ''version'' = None \<and>
   json_member (JObj []) ''binaries'' = None \<and>
   json_member (JObj []) ''security'' = None"
  by (simp add: loadManifest_def readManifest_def readFileSync_def json_node_def json_verifier_def)

section \<open>The gate sequencer\<close>

text \<open>
  C3. \<open>runSecurityGates\<close> returns at once, with \<open>overall = true\<close> and
  \<open>skippedInCI = true\<close>, having called no collaborator and left the world as it
  was, exactly when the environment is a strict CI environment (\<open>CI\<close> is \<open>true\<close> or
  \<open>1\<close> and one of \<open>GITHUB_ACTIONS\<close>, \<open>TRAVIS\<close>, \<open>CIRCLECI\<close> is \<open>true\<close> or
  \<open>JENKINS_URL\<close> is set and not empty) or \<open>OPTIMIZER_SKIP_SECURITY\<close> is \<open>true\<close>.
  In that case \<open>run\<close> skips the compatibility checks too and goes straight to the
  post-install tasks.
\<close>

theorem bypass_exactly_when_strict_CI_or_override:
  "((case runSecurityGates C (new_SecurePostInstaller N) w of
       (results, w', calls) \<Rightarrow> overall results \<and> skippedInCI results \<and> calls = [] \<and> w' = w)
    \<longleftrightarrow>
    ((env N ''CI'' = Some ''true'' \<or> env N ''CI'' = Some ''1'') \<and>
     (env N ''GITHUB_ACTIONS'' = Some ''true'' \<or> env N ''TRAVIS'' = Some ''true'' \<or>
      env N ''CIRCLECI'' = Some ''true'' \<or>
      (\<exists>url. env N ''JENKINS_URL'' = Some url \<and> url \<noteq> [])) \<or>
     env N ''OPTIMIZER_SKIP_SECURITY'' = Some ''true'')) \<and>
   (detectCIEnvironment N \<longrightarrow>
      run C (new_SecurePostInstaller N) w =
        (Completed, runPostInstallTasks C w, [Call_runPostInstallTasks, Call_showSuccessMessage]))"
proof (cases "detectCIEnvironment N")
  case True
  then have ci: "isCI (new_SecurePostInstaller N)" by (simp add: new_SecurePostInstaller_def)
  show ?thesis
    using True unfolding detectCIEnvironment_env[symmetric]
    by (simp add: runSecurityGates_bypassed[OF ci] run_def ci)
next
  case False
  then have ci: "\<not> isCI (new_SecurePostInstaller N)" by (simp add: new_SecurePostInstaller_def)
  from runSecurityGates_not_bypassed[OF ci, of C w] obtain results w' rest where
    "runSecurityGates C (new_SecurePostInstaller N) w = (results, w', Call_requireValidApiKey # rest)"
    by blast
  then show ?thesis
    using False unfolding detectCIEnvironment_env[symmetric] by simp
qed

theorem bypass_exactly_when_strict_CI_or_override_witness:
  "runSecurityGates failing_key_check (new_SecurePostInstaller github_actions_node) () =
     (\<lparr> apiKey = None, binaryIntegrity = None, binaryAvailable = None, overall = True,
        errors = [], warnings = [], skippedInCI = True \<rparr>, (), []) \<and>
   run failing_key_check (new_SecurePostInstaller github_actions_node) () =
     (Completed, (), [Call_runPostInstallTasks, Call_showSuccessMessage]) \<and>
   snd (snd (runSecurityGates failing_key_check (new_SecurePostInstaller ci_only_node) ())) \<noteq> []"
proof -
  note t = bypass_exactly_when_strict_CI_or_override[where C = failing_key_check and w = "()"]
  have ci: "detectCIEnvironment github_actions_node"
    by (simp add: detectCIEnvironment_def isStrictCI_def example_defs)
  then have "isCI (new_SecurePostInstaller github_actions_node)"
    by (simp add: new_SecurePostInstaller_def)
  then have 1: "runSecurityGates failing_key_check (new_SecurePostInstaller github_actions_node) () =
     (\<lparr> apiKey = None, binaryIntegrity = None, binaryAvailable = None, overall = True,
        errors = [], warnings = [], skippedInCI = True \<rparr>, (), [])"
    by (rule runSecurityGates_bypassed)
  from t[where N = github_actions_node] ci
  have 2: "run failing_key_check (new_SecurePostInstaller github_actions_node) () =
     (Completed, (), [Call_runPostInstallTasks, Call_showSuccessMessage])"
    by (simp add: failing_key_check_def)
  have no: "\<not> ((env ci_only_node ''CI'' = Some ''true'' \<or> env ci_only_node ''CI'' = Some ''1'') \<and>
     (env ci_only_node ''GITHUB_ACTIONS'' = Some ''true'' \<or> env ci_only_node ''TRAVIS'' = Some ''true'' \<or>
      env ci_only_node ''CIRCLECI'' = Some ''true'' \<or>
      (\<exists>url. env ci_only_node ''JENKINS_URL'' = Some url \<and> url \<noteq> [])) \<or>
     env ci_only_node ''OPTIMIZER_SKIP_SECURITY'' = Some ''true'')"
    by (simp add: example_defs)
  have "\<not> (case runSecurityGates failing_key_check (new_SecurePostInstaller ci_only_node) () of
       (results, w', calls) \<Rightarrow> overall results \<and> skippedInCI results \<and> calls = [] \<and> w' = ())"
    unfolding t[where N = ci_only_node, THEN conjunct1] by (rule no)
  moreover have "\<not> isCI (new_SecurePostInstaller ci_only_node)"
    by (simp add: new_SecurePostInstaller_def detectCIEnvironment_def isStrictCI_def devOverride_def
        env_truthy_def example_defs)
  ultimately have 3:
    "snd (snd (runSecurityGates failing_key_check (new_SecurePostInstaller ci_only_node) ())) \<noteq> []"
    by (simp add: runSecurityGates_def failing_key_check_def initial_results_def)
  from 1 2 3 show ?thesis by (intro conjI)
qed

text \<open>
  C4. In an attempt that is not bypassed the gates run in order and stop at the first
  failure: if the credential check throws, \<open>run\<close> calls nothing else before it
  reports the failure and exits; if the availability gate throws, the integrity gate
  and the compatibility checks are not called; if the integrity gate throws, the
  compatibility checks are not called; and failed compatibility checks end the run
  before the post-install tasks.
\<close>

theorem gates_short_circuit:
  assumes "\<not> isCI I"
  shows "(\<forall>msg w1. requireValidApiKey C w = (Inl msg, w1) \<longrightarrow>
            run C I w =
              (Exited 1, w1,
               [Call_requireValidApiKey, Call_showFailureMessage, Call_process_exit 1])) \<and>
         (\<forall>a w1 msg w2.
            requireValidApiKey C w = (Inr a, w1) \<and> ensureBinaryAvailable C w1 = (Inl msg, w2) \<longrightarrow>
            run C I w =
              (Exited 1, w2,
               [Call_requireValidApiKey, Call_ensureBinaryAvailable, Call_showFailureMessage,
                Call_process_exit 1])) \<and>
         (\<forall>a w1 binaryPath w2 msg w3.
            requireValidApiKey C w = (Inr a, w1) \<and>
            ensureBinaryAvailable C w1 = (Inr binaryPath, w2) \<and>
            quickVerify C w2 = (Inl msg, w3) \<longrightarrow>
            run C I w =
              (Exited 1, w3,
               [Call_requireValidApiKey, Call_ensureBinaryAvailable, Call_quickVerify,
                Call_showFailureMessage, Call_process_exit 1])) \<and>
         (\<forall>a w1 binaryPath w2 r w3 c w4.
            requireValidApiKey C w = (Inr a, w1) \<and>
            ensureBinaryAvailable C w1 = (Inr binaryPath, w2) \<and>
            quickVerify C w2 = (Inr r, w3) \<and>
            runCompatibilityChecks C w3 = (c, w4) \<and> hasIssues c \<longrightarrow>
            run C I w =
              (Exited 1, w4,
               [Call_requireValidApiKey, Call_ensureBinaryAvailable, Call_quickVerify,
                Call_runCompatibilityChecks, Call_showFailureMessage, Call_process_exit 1])) \<and>
         (\<forall>a w1 binaryPath w2 r w3 c w4.
            requireValidApiKey C w = (Inr a, w1) \<and>
            ensureBinaryAvailable C w1 = (Inr binaryPath, w2) \<and>
            quickVerify C w2 = (Inr r, w3) \<and>
            runCompatibilityChecks C w3 = (c, w4) \<and> \<not> hasIssues c \<longrightarrow>
            run C I w =
              (Completed, runPostInstallTasks C w4,
               [Call_requireValidApiKey, Call_ensureBinaryAvailable, Call_quickVerify,
                Call_runCompatibilityChecks, Call_runPostInstallTasks, Call_showSuccessMessage]))"
proof (intro conjI allI impI)
  fix msg w1 assume "requireValidApiKey C w = (Inl msg, w1)"
  with assms show "run C I w =
      (Exited 1, w1, [Call_requireValidApiKey, Call_showFailureMessage, Call_process_exit 1])"
    by (rule run_gate1_fails)
next
  fix a w1 msg w2
  assume "requireValidApiKey C w = (Inr a, w1) \<and> ensureBinaryAvailable C w1 = (Inl msg, w2)"
  then show "run C I w =
      (Exited 1, w2,
       [Call_requireValidApiKey, Call_ensureBinaryAvailable, Call_showFailureMessage,
        Call_process_exit 1])"
    using run_gate2_fails[OF assms, of C w a w1 msg w2] by simp
next
  fix a w1 binaryPath w2 msg w3
  assume "requireValidApiKey C w = (Inr a, w1) \<and>
          ensureBinaryAvailable C w1 = (Inr binaryPath, w2) \<and>
          quickVerify C w2 = (Inl msg, w3)"
  then show "run C I w =
      (Exited 1, w3,
       [Call_requireValidApiKey, Call_ensureBinaryAvailable, Call_quickVerify,
        Call_showFailureMessage, Call_process_exit 1])"
    using run_gate3_fails[OF assms, of C w a w1 binaryPath w2 msg w3] by simp
next
  fix a w1 binaryPath w2 r w3 c w4
  assume "requireValidApiKey C w = (Inr a, w1) \<and>
          ensureBinaryAvailable C w1 = (Inr binaryPath, w2) \<and>
          quickVerify C w2 = (Inr r, w3) \<and>
          runCompatibilityChecks C w3 = (c, w4) \<and> hasIssues c"
  then show "run C I w =
      (Exited 1, w4,
       [Call_requireValidApiKey, Call_ensureBinaryAvailable, Call_quickVerify,
        Call_runCompatibilityChecks, Call_showFailureMessage, Call_process_exit 1])"
    using run_gate4[OF assms, of C w a w1 binaryPath w2 r w3 c w4] by simp
next
  fix a w1 binaryPath w2 r w3 c w4
  assume "requireValidApiKey C w = (Inr a, w1) \<and>
          ensureBinaryAvailable C w1 = (Inr binaryPath, w2) \<and>
          quickVerify C w2 = (Inr r, w3) \<and>
          runCompatibilityChecks C w3 = (c, w4) \<and> \<not> hasIssues c"
  then show "run C I w =
      (Completed, runPostInstallTasks C w4,
       [Call_requireValidApiKey, Call_ensureBinaryAvailable, Call_quickVerify,
        Call_runCompatibilityChecks, Call_runPostInstallTasks, Call_showSuccessMessage])"
    using run_gate4[OF assms, of C w a w1 binaryPath w2 r w3 c w4] by simp
qed

theorem gates_short_circuit_witness:
  "\<not> isCI (new_SecurePostInstaller ci_only_node) \<and>
   requireValidApiKey failing_key_check () = (Inl ''No MCP Optimizer API key found.'', ()) \<and>
   run failing_key_check (new_SecurePostInstaller ci_only_node) () =
     (Exited 1, (), [Call_requireValidApiKey, Call_showFailureMessage, Call_process_exit 1])"
proof -
  have h: "\<not> isCI (new_SecurePostInstaller ci_only_node)"
    by (simp add: new_SecurePostInstaller_def detectCIEnvironment_def isStrictCI_def devOverride_def
        env_truthy_def example_defs)
  have g: "requireValidApiKey failing_key_check () = (Inl ''No MCP Optimizer API key found.'', ())"
    by (simp add: failing_key_check_def)
  have "run failing_key_check (new_SecurePostInstaller ci_only_node) () =
     (Exited 1, (), [Call_requireValidApiKey, Call_showFailureMessage, Call_process_exit 1])"
    by (rule gates_short_circuit[OF h, where C = failing_key_check and w = "()",
          THEN conjunct1, rule_format, OF g])
  with h g show ?thesis by (intro conjI)
qed

section \<open>The remote fetcher\<close>

text \<open>
  C5 says that no failed download leaves a file at the destination. The code unlinks
  the file in the \<open>error\<close> handler of the file stream only (see
  \<open>downloadFile_file_error_unlinks\<close>); for a response with status 404 the promise
  is rejected with the file that \<open>createWriteStream\<close> created still in place.
\<close>

theorem downloadFile_http_404_leaves_file:
  "downloadFile (\<lambda>url. Response 404 ''Not Found'' None (Finish []))
     ''https://github.com/nivlewd1/mcp-prompt-optimizer-local/releases/download/v3.1.0/opt-linux-x64''
     ''/pkg/bin/opt-linux-x64'' Map.empty =
   Some (Inl ''HTTP 404: Not Found'', [''/pkg/bin/opt-linux-x64'' \<mapsto> Readable []])"
  by (subst downloadFile.simps) (simp add: show_nat_404)

end
